theory Spec2Isabelle
  imports Complex_Main "HOL-Library.Sublist"
begin

section \<open>Values shared by the whole server\<close>

text \<open>
  A JavaScript string is represented by the bytes of its UTF-8 encoding (a \<open>char list\<close>),
  which is what \<open>Buffer.from(s)\<close> and \<open>fs.readFile(p, "utf8")\<close> exchange with the
  program. A value that may be \<open>undefined\<close> or \<open>null\<close> is an \<open>option\<close>.
  A string is falsy exactly when it is empty.
\<close>

definition truthy :: "string option \<Rightarrow> bool" where
  "truthy v = (case v of None \<Rightarrow> False | Some s \<Rightarrow> s \<noteq> [])"

text \<open>
  \<open>String.prototype.toLowerCase\<close> on the ASCII letters. Outside ASCII the runtime also
  maps letters, but never onto one of the letters of \<open>nova\<close>, \<open>nebula\<close>, \<open>arab\<close> or
  \<open>japan\<close>, the only strings the server compares the result with.
\<close>

definition lower_char :: "char \<Rightarrow> char" where
  "lower_char c =
     (case map_of (zip ''ABCDEFGHIJKLMNOPQRSTUVWXYZ'' ''abcdefghijklmnopqrstuvwxyz'') c of
        Some d \<Rightarrow> d
      | None \<Rightarrow> c)"

definition toLowerCase :: "string \<Rightarrow> string" where
  "toLowerCase s = map lower_char s"

text \<open>
  A thrown value, as the handler of \<open>start\<close> reads it: \<open>e?.message\<close> and \<open>String(e)\<close>.
\<close>

datatype thrown = Thrown (e_message: "string option") (e_String: string)

section \<open>Obfuscation configs\<close>

text \<open>
  A config is the object literal a \<open>get...Config\<close> function returns: option names with
  their values, in the order of the source. The identifier generators are closures;
  each is named after the function the source binds it to.
\<close>

datatype generator =
    GenerateNebulaName
  | GenerateNovaName
  | GenerateArabicName
  | GenerateJapaneseXArabName
  | GenerateJapaneseName

datatype cfg_value =
    VBool bool
  | VNum rat
  | VStr string
  | VGen generator
  | VLock "(string \<times> bool) list"

type_synonym config = "(string \<times> cfg_value) list"

definition getUltraSafeConfig :: config where
  "getUltraSafeConfig =
    [(''target'', VStr ''node''),
     (''calculator'', VBool True),
     (''compact'', VBool True),
     (''hexadecimalNumbers'', VBool True),
     (''controlFlowFlattening'', VNum 1),
     (''deadCode'', VNum 1),
     (''dispatcher'', VBool True),
     (''duplicateLiteralsRemoval'', VNum 1),
     (''flatten'', VBool True),
     (''globalConcealing'', VBool True),
     (''identifierGenerator'', VStr ''zeroWidth''),
     (''renameVariables'', VBool True),
     (''renameGlobals'', VBool True),
     (''minify'', VBool True),
     (''movedDeclarations'', VBool True),
     (''objectExtraction'', VBool True),
     (''opaquePredicates'', VNum (3 / 4)),
     (''stringConcealing'', VBool True),
     (''stringCompression'', VBool True),
     (''stringEncoding'', VBool True),
     (''stringSplitting'', VNum (3 / 4)),
     (''rgf'', VBool False)]"

definition getNebulaObfuscationConfig :: config where
  "getNebulaObfuscationConfig =
    [(''target'', VStr ''node''),
     (''compact'', VBool True),
     (''renameVariables'', VBool True),
     (''renameGlobals'', VBool True),
     (''identifierGenerator'', VGen GenerateNebulaName),
     (''stringCompression'', VBool True),
     (''stringConcealing'', VBool False),
     (''stringEncoding'', VBool True),
     (''stringSplitting'', VBool False),
     (''controlFlowFlattening'', VNum 1),
     (''flatten'', VBool True),
     (''shuffle'', VBool True),
     (''rgf'', VBool True),
     (''deadCode'', VBool True),
     (''opaquePredicates'', VBool True),
     (''dispatcher'', VBool True),
     (''globalConcealing'', VBool True),
     (''objectExtraction'', VBool True),
     (''duplicateLiteralsRemoval'', VBool True),
     (''lock'', VLock
        [(''selfDefending'', True),
         (''antiDebug'', True),
         (''integrity'', True),
         (''tamperProtection'', True)])]"

definition getNovaObfuscationConfig :: config where
  "getNovaObfuscationConfig =
    [(''target'', VStr ''node''),
     (''calculator'', VBool False),
     (''compact'', VBool True),
     (''controlFlowFlattening'', VNum 1),
     (''deadCode'', VNum 1),
     (''dispatcher'', VBool True),
     (''duplicateLiteralsRemoval'', VNum 1),
     (''flatten'', VBool True),
     (''globalConcealing'', VBool True),
     (''hexadecimalNumbers'', VNum 1),
     (''identifierGenerator'', VGen GenerateNovaName),
     (''lock'', VLock
        [(''antiDebug'', True),
         (''integrity'', True),
         (''selfDefending'', True)]),
     (''minify'', VBool True),
     (''movedDeclarations'', VBool True),
     (''objectExtraction'', VBool True),
     (''opaquePredicates'', VBool True),
     (''renameGlobals'', VBool True),
     (''renameVariables'', VBool True),
     (''shuffle'', VBool True),
     (''stack'', VBool True),
     (''stringCompression'', VBool True),
     (''stringConcealing'', VBool True)]"

definition getArabObfuscationConfig :: config where
  "getArabObfuscationConfig =
    [(''target'', VStr ''node''),
     (''compact'', VBool True),
     (''renameVariables'', VBool True),
     (''renameGlobals'', VBool True),
     (''identifierGenerator'', VGen GenerateArabicName),
     (''stringEncoding'', VBool True),
     (''stringSplitting'', VBool True),
     (''controlFlowFlattening'', VNum 1),
     (''shuffle'', VBool True),
     (''duplicateLiteralsRemoval'', VBool True),
     (''deadCode'', VBool True),
     (''calculator'', VBool True),
     (''opaquePredicates'', VBool True),
     (''lock'', VLock
        [(''selfDefending'', True),
         (''antiDebug'', True),
         (''integrity'', True),
         (''tamperProtection'', True)])]"

definition getJapanxArabObfuscationConfig :: config where
  "getJapanxArabObfuscationConfig =
    [(''target'', VStr ''node''),
     (''compact'', VBool True),
     (''renameVariables'', VBool True),
     (''renameGlobals'', VBool True),
     (''identifierGenerator'', VGen GenerateJapaneseXArabName),
     (''stringCompression'', VBool True),
     (''stringConcealing'', VBool True),
     (''stringEncoding'', VBool True),
     (''stringSplitting'', VBool True),
     (''controlFlowFlattening'', VNum 1),
     (''flatten'', VBool True),
     (''shuffle'', VBool True),
     (''rgf'', VBool False),
     (''dispatcher'', VBool True),
     (''duplicateLiteralsRemoval'', VBool True),
     (''deadCode'', VBool True),
     (''calculator'', VBool True),
     (''opaquePredicates'', VBool True),
     (''lock'', VLock
        [(''selfDefending'', True),
         (''antiDebug'', True),
         (''integrity'', True),
         (''tamperProtection'', True)])]"

definition getJapanObfuscationConfig :: config where
  "getJapanObfuscationConfig =
    [(''target'', VStr ''node''),
     (''compact'', VBool True),
     (''renameVariables'', VBool True),
     (''renameGlobals'', VBool True),
     (''identifierGenerator'', VGen GenerateJapaneseName),
     (''stringEncoding'', VBool True),
     (''stringSplitting'', VBool True),
     (''controlFlowFlattening'', VNum 1),
     (''flatten'', VBool True),
     (''shuffle'', VBool True),
     (''duplicateLiteralsRemoval'', VBool True),
     (''deadCode'', VBool True),
     (''calculator'', VBool True),
     (''opaquePredicates'', VBool True),
     (''lock'', VLock
        [(''selfDefending'', True),
         (''antiDebug'', True),
         (''integrity'', True),
         (''tamperProtection'', True)])]"

text \<open>
  \<open>getDefaultConfig\<close> is called on lines 404 and 430 of \<open>server.js\<close>. The file is
  the whole program: it requires npm packages and Node built-ins only, and it neither
  declares nor imports a binding of that name. Evaluating the call therefore throws
  \<open>ReferenceError: getDefaultConfig is not defined\<close>.
\<close>

definition getDefaultConfig :: "thrown + config" where
  "getDefaultConfig =
     Inl (Thrown (Some ''getDefaultConfig is not defined'')
                 ''ReferenceError: getDefaultConfig is not defined'')"

text \<open>
  The conditional chain of lines 426 to 430, on the \<open>preset\<close> field of the request:
  \<open>(preset || "").toLowerCase()\<close> is compared with four names, in this order, and the
  last branch calls \<open>getDefaultConfig\<close>.
\<close>

definition resolve_preset :: "string option \<Rightarrow> thrown + config" where
  "resolve_preset preset =
     (let name = toLowerCase (case preset of None \<Rightarrow> [] | Some s \<Rightarrow> s)
      in if name = ''nova'' then Inr getNovaObfuscationConfig
         else if name = ''nebula'' then Inr getNebulaObfuscationConfig
         else if name = ''arab'' then Inr getArabObfuscationConfig
         else if name = ''japan'' then Inr getJapanObfuscationConfig
         else getDefaultConfig)"

text \<open>The \<open>lock\<close> object of a config, and whether it switches a guard on.\<close>

definition lock_of :: "config \<Rightarrow> (string \<times> bool) list option" where
  "lock_of cfg = (case map_of cfg ''lock'' of Some (VLock l) \<Rightarrow> Some l | _ \<Rightarrow> None)"

definition guard_enabled :: "config \<Rightarrow> string \<Rightarrow> bool" where
  "guard_enabled cfg g =
     (case lock_of cfg of None \<Rightarrow> False | Some l \<Rightarrow> map_of l g = Some True)"


section \<open>Code wrapper\<close>

text \<open>The template literal \<open>TByypas\<close> (lines 330 to 359), byte for byte.\<close>

definition TByypas :: string where
  \<open>TByypas =
    ''(async () => {\<newline>'' @
    ''  const fs = require("fs");\<newline>'' @
    ''  const path = require("path");\<newline>'' @
    ''  const C = require("chalk");\<newline>'' @
    ''  const A = require("axios");\<newline>'' @
    ''  const pkg = JSON.parse(fs.readFileSync(path.join(process.cwd(), "package.json"), "utf8"));\<newline>'' @
    ''  let mainFile;\<newline>'' @
    ''  if (pkg.main) {\<newline>'' @
    ''    mainFile = path.resolve(process.cwd(), pkg.main);\<newline>'' @
    ''  } else if (pkg.scripts && pkg.scripts.start) {\<newline>'' @
    ''    const parts = pkg.scripts.start.split(" ");\<newline>'' @
    ''    mainFile = path.resolve(process.cwd(), parts[parts.length - 1]);\<newline>'' @
    ''  } else {\<newline>'' @
    ''    mainFile = process.argv[1];\<newline>'' @
    ''  }\<newline>'' @
    ''  const snapshot = fs.readFileSync(mainFile, "utf8");\<newline>'' @
    ''  setInterval(() => {\<newline>'' @
    ''    const now = fs.readFileSync(mainFile, "utf8");\<newline>'' @
    ''    if (snapshot !== now) {\<newline>'' @
    ''      console.log(C.redBright("[ '' @ [CHR 0xE2, CHR 0x9A, CHR 0xA0, CHR 0xEF, CHR 0xB8, CHR 0x8F] @ '' ] File sedang dirombak!"));\<newline>'' @
    ''      process.abort();\<newline>'' @
    ''    }\<newline>'' @
    ''  }, 2000);\<newline>'' @
    ''  if (A.interceptors && A.interceptors.request.handlers.length > 0) {\<newline>'' @
    ''    console.log(C.redBright("[ '' @ [CHR 0xE2, CHR 0x9A, CHR 0xA0, CHR 0xEF, CHR 0xB8, CHR 0x8F] @ '' ] Axios interceptor detected!"));\<newline>'' @
    ''    process.abort();\<newline>'' @
    ''  }\<newline>'' @
    ''  Object.freeze(A);\<newline>'' @
    ''  Object.seal(A);\<newline>'' @
    ''})();''\<close>

text \<open>
  The text of the password template between \<open>${TByypas}\<close> and \<open>${originalCode}\<close>
  (lines 362 to 378), with the encoded password spliced in between single quotes, and
  the text after \<open>${originalCode}\<close> (lines 379 to 382).
\<close>

definition gate_head :: "string \<Rightarrow> string" where
  \<open>gate_head encodedPassword =
    ''\<newline>'' @
    ''(async () => {\<newline>'' @
    ''const readline = require('readline');\<newline>'' @
    ''const chalk = require('chalk');\<newline>'' @
    ''const passwordBuffer = Buffer.from('' @ [CHR 0x27] @ encodedPassword @ [CHR 0x27] @ '', 'base64');\<newline>'' @
    ''const correctPassword = passwordBuffer.toString('utf8');\<newline>'' @
    ''const rl = readline.createInterface({\<newline>'' @
    ''  input: process.stdin,\<newline>'' @
    ''  output: process.stdout\<newline>'' @
    ''});\<newline>'' @
    ''console.clear();\<newline>'' @
    ''console.log(chalk.bold.red("'' @ [CHR 0xF0, CHR 0x9F, CHR 0x94, CHR 0x91] @ '' MASUKKAN PASSWORD:"));\<newline>'' @
    ''rl.question('> ', (inputPassword) => {\<newline>'' @
    ''  if (inputPassword !== correctPassword) {\<newline>'' @
    ''    console.log(chalk.bold.red("'' @ [CHR 0xE2, CHR 0x9D, CHR 0x8C] @ '' PASSWORD SALAH"));\<newline>'' @
    ''    process.exit(1);\<newline>'' @
    ''  }\<newline>''\<close>

definition gate_tail :: string where
  \<open>gate_tail =
    ''\<newline>'' @
    ''  rl.close();\<newline>'' @
    ''});\<newline>'' @
    ''})();''\<close>

definition createPasswordTemplate :: "string \<Rightarrow> string \<Rightarrow> string" where
  "createPasswordTemplate encodedPassword originalCode =
     TByypas @ gate_head encodedPassword @ originalCode @ gate_tail"

subsection \<open>Base64, as \<open>Buffer\<close> implements it\<close>

text \<open>
  \<open>Buffer.from(password).toString("base64")\<close> is the base64 encoding of RFC 4648 with
  padding, over the UTF-8 bytes of the password. \<open>Buffer.from(text, "base64")\<close> decodes:
  it stops at the first \<open>=\<close>, skips every character outside the alphabet, and also
  accepts the two characters of the URL-safe alphabet.
\<close>

definition b64_alphabet :: string where
  "b64_alphabet = ''ABCDEFGHIJKLMNOPQRSTUVWXYZabcdefghijklmnopqrstuvwxyz0123456789+/''"

definition b64_char :: "nat \<Rightarrow> char" where
  "b64_char i = b64_alphabet ! i"

fun base64_encode :: "string \<Rightarrow> string" where
  "base64_encode (a # b # c # rest) =
     (let x = (of_char a :: nat); y = (of_char b :: nat); z = (of_char c :: nat)
      in [b64_char (x div 4), b64_char ((x mod 4) * 16 + y div 16),
          b64_char ((y mod 16) * 4 + z div 64), b64_char (z mod 64)] @ base64_encode rest)"
| "base64_encode [a, b] =
     (let x = (of_char a :: nat); y = (of_char b :: nat)
      in [b64_char (x div 4), b64_char ((x mod 4) * 16 + y div 16),
          b64_char ((y mod 16) * 4), CHR ''=''])"
| "base64_encode [a] =
     (let x = (of_char a :: nat)
      in [b64_char (x div 4), b64_char ((x mod 4) * 16), CHR ''='', CHR ''=''])"
| "base64_encode [] = []"






subsection \<open>Where the template puts the spliced code\<close>


text \<open>
  The braces open at the end of a text: the number of \<open>{\<close> less the number of \<open>}\<close>.
  The template's own text has no brace inside a string or a comment, so there the count
  is the depth of nested blocks: 1 in the body of \<open>(async () => {\<close>, where
  \<open>console.clear()\<close> stands, and 2 in the body of the callback of \<open>rl.question\<close>,
  where the check stands.
\<close>

definition brace_depth :: "string \<Rightarrow> int" where
  "brace_depth t = int (count_list t (CHR ''{'')) - int (count_list t (CHR ''}''))"

text \<open>
  The gate of the specification, read on the text: the spliced code is under the gate
  when every point of it lies inside the callback of \<open>rl.question\<close>, at depth 2 or
  more of the second block.
\<close>

definition spec_payload_inside_callback :: "string \<Rightarrow> string \<Rightarrow> bool" where
  "spec_payload_inside_callback encodedPassword originalCode =
     list_all (\<lambda>n. 2 \<le> brace_depth (gate_head encodedPassword @ take n originalCode))
       [0..<Suc (length originalCode)]"


subsection \<open>The text handed to the engine\<close>

text \<open>
  Lines 399 to 403 of \<open>obfuscateWithOptions\<close>: the value of \<open>base\<close> when the engine is
  called. A missing or empty password is falsy and adds no template.
\<close>

definition wrap_base :: "string \<Rightarrow> bool \<Rightarrow> string option \<Rightarrow> string" where
  "wrap_base code addAntiBypass password =
     (let base = (if addAntiBypass then TByypas @ ''\<newline>'' @ code else code)
      in case password of
           None \<Rightarrow> base
         | Some pw \<Rightarrow>
             if pw = [] then base
             else (let encoded = base64_encode pw
                   in createPasswordTemplate encoded base))"

section \<open>The external engine and its result\<close>

text \<open>
  \<open>JsConfuser.obfuscate\<close> is outside the program and its result is untyped. The
  server only probes the result: \<open>typeof result === "string"\<close>, its truthiness,
  \<open>typeof result.code === "string"\<close>, \<open>typeof result.toString === "function"\<close>, and
  it calls \<open>result.toString()\<close> or \<open>JSON.stringify(result)\<close>. A result is the record
  of what these probes answer; a call may throw, and need not give a string. A value
  that is not a string carries the words Node's argument errors describe it by
  (\<open>undefined\<close>, \<open>an instance of Object\<close>).
\<close>

datatype js_value = JString string | JOther (received: string)

record engine_result =
  as_string :: "string option"
  is_truthy :: bool
  code_string :: "string option"
  toString_call :: "(thrown + js_value) option"
  JSON_stringify :: "thrown + js_value"

text \<open>Lines 389 to 392 of \<open>obfuscateAndWrite\<close>: the value of \<open>obf\<close>.\<close>

definition normalize_result :: "engine_result \<Rightarrow> thrown + js_value" where
  "normalize_result result =
     (case as_string result of
        Some s \<Rightarrow> Inr (JString s)
      | None \<Rightarrow>
          (case (if is_truthy result then code_string result else None) of
             Some c \<Rightarrow> Inr (JString c)
           | None \<Rightarrow>
               (case (if is_truthy result then toString_call result else None) of
                  Some r \<Rightarrow> r
                | None \<Rightarrow> JSON_stringify result)))"

text \<open>
  The priority order as the specification words it, without the truthiness guards:
  a string, else a string \<open>code\<close> field, else a callable \<open>toString\<close>, else
  \<open>JSON.stringify\<close>.
\<close>

definition spec_normalize_result :: "engine_result \<Rightarrow> thrown + js_value" where
  "spec_normalize_result result =
     (case as_string result of
        Some s \<Rightarrow> Inr (JString s)
      | None \<Rightarrow>
          (case code_string result of
             Some c \<Rightarrow> Inr (JString c)
           | None \<Rightarrow>
               (case toString_call result of
                  Some r \<Rightarrow> r
                | None \<Rightarrow> JSON_stringify result)))"

text \<open>
  What the probes answer on the JavaScript number \<open>NaN\<close>: it is not a string, it is
  falsy, it has no \<open>code\<close>, \<open>(NaN).toString()\<close> is \<open>"NaN"\<close> and
  \<open>JSON.stringify(NaN)\<close> is \<open>"null"\<close>.
\<close>

definition result_NaN :: engine_result where
  "result_NaN =
     \<lparr>as_string = None, is_truthy = False, code_string = None,
      toString_call = Some (Inr (JString ''NaN'')),
      JSON_stringify = Inr (JString ''null'')\<rparr>"

section \<open>The world the server runs in\<close>

text \<open>
  The file system maps a path to what is there. \<open>path.join\<close>, the two directories,
  the engine, the readings of \<open>Date.now()\<close> (the \<open>ticks\<close>-th call reads
  \<open>clock ticks\<close>), the answer of \<open>fs.readdir\<close> and the failures of single file
  operations are parameters: no theorem assumes anything about them beyond what it states.
\<close>

text \<open>
  Times are whole milliseconds: \<open>Date.now()\<close> is an integer, and \<open>mtimeMs\<close> is
  taken to the millisecond.
\<close>

datatype node = File (mtimeMs: int) (content: string) | Dir

record world =
  nodes :: "string \<Rightarrow> node option"
  path_join :: "string \<Rightarrow> string \<Rightarrow> string"
  UPLOAD_DIR :: string
  OUTPUT_DIR :: string
  clock :: "nat \<Rightarrow> nat"
  ticks :: nat
  obfuscate :: "string \<Rightarrow> config option \<Rightarrow> thrown + engine_result"
  readdir_answer :: "string \<Rightarrow> thrown + string list"
  read_fault :: "string \<Rightarrow> thrown option"
  write_fault :: "string \<Rightarrow> thrown option"
  stat_fault :: "string \<Rightarrow> thrown option"
  remove_fault :: "string \<Rightarrow> thrown option"

definition Date_now :: "world \<Rightarrow> nat \<times> world" where
  "Date_now w = (clock w (ticks w), w\<lparr>ticks := Suc (ticks w)\<rparr>)"

definition digit_char :: "nat \<Rightarrow> char" where
  "digit_char d = ''0123456789'' ! d"

function digits :: "nat \<Rightarrow> string" where
  "digits n = (if n < 10 then [digit_char n] else digits (n div 10) @ [digit_char (n mod 10)])"
  by pat_completeness auto
termination
  by (relation "measure id") auto

declare digits.simps [simp del]

definition quoted :: "string \<Rightarrow> string" where
  "quoted p = [CHR 0x27] @ p @ [CHR 0x27]"

definition ENOENT :: "string \<Rightarrow> string \<Rightarrow> thrown" where
  "ENOENT syscall p =
     Thrown (Some (''ENOENT: no such file or directory, '' @ syscall @ '' '' @ quoted p))
            (''Error: ENOENT: no such file or directory, '' @ syscall @ '' '' @ quoted p)"

definition EISDIR_read :: thrown where
  "EISDIR_read =
     Thrown (Some ''EISDIR: illegal operation on a directory, read'')
            ''Error: EISDIR: illegal operation on a directory, read''"

definition EISDIR_open :: "string \<Rightarrow> thrown" where
  "EISDIR_open p =
     Thrown (Some (''EISDIR: illegal operation on a directory, open '' @ quoted p))
            (''Error: EISDIR: illegal operation on a directory, open '' @ quoted p)"

definition ERR_INVALID_ARG_TYPE :: "string \<Rightarrow> thrown" where
  \<open>ERR_INVALID_ARG_TYPE r =
     Thrown (Some (''The "data" argument must be of type string or an instance of Buffer, TypedArray, or DataView. Received '' @ r))
            (''TypeError [ERR_INVALID_ARG_TYPE]: The "data" argument must be of type string or an instance of Buffer, TypedArray, or DataView. Received '' @ r)\<close>

definition fs_existsSync :: "world \<Rightarrow> string \<Rightarrow> bool" where
  "fs_existsSync w p = (nodes w p \<noteq> None)"

definition fs_readFile :: "world \<Rightarrow> string \<Rightarrow> thrown + string" where
  "fs_readFile w p =
     (case read_fault w p of
        Some e \<Rightarrow> Inl e
      | None \<Rightarrow>
          (case nodes w p of
             None \<Rightarrow> Inl (ENOENT ''open'' p)
           | Some Dir \<Rightarrow> Inl EISDIR_read
           | Some (File t c) \<Rightarrow> Inr c))"

definition fs_writeFile :: "world \<Rightarrow> string \<Rightarrow> js_value \<Rightarrow> thrown + world" where
  "fs_writeFile w p data =
     (case data of
        JOther r \<Rightarrow> Inl (ERR_INVALID_ARG_TYPE r)
      | JString s \<Rightarrow>
          (case write_fault w p of
             Some e \<Rightarrow> Inl e
           | None \<Rightarrow>
               if nodes w p = Some Dir then Inl (EISDIR_open p)
               else Inr (w\<lparr>nodes := (nodes w)(p \<mapsto> File (int (clock w (ticks w))) s)\<rparr>)))"

definition fs_stat :: "world \<Rightarrow> string \<Rightarrow> thrown + node" where
  "fs_stat w p =
     (case stat_fault w p of
        Some e \<Rightarrow> Inl e
      | None \<Rightarrow>
          (case nodes w p of None \<Rightarrow> Inl (ENOENT ''stat'' p) | Some n \<Rightarrow> Inr n))"

definition fs_remove :: "world \<Rightarrow> string \<Rightarrow> thrown + world" where
  "fs_remove w p =
     (case remove_fault w p of
        Some e \<Rightarrow> Inl e
      | None \<Rightarrow> Inr (w\<lparr>nodes := (nodes w)(p := None)\<rparr>))"

section \<open>Job orchestration\<close>

text \<open>
  \<open>obfuscateAndWrite\<close> (lines 386 to 397): the engine is called, its result is
  normalised, the file name is the prefix followed by the reading of the clock and
  \<open>.js\<close>, and the text is written under the output directory. Every failure is a
  rejection of the promise, here \<open>Inl\<close>.
\<close>

definition obfuscateAndWrite ::
  "world \<Rightarrow> string \<Rightarrow> config option \<Rightarrow> string \<Rightarrow> (thrown + string) \<times> world" where
  "obfuscateAndWrite w code cfg prefix' =
     (case obfuscate w code cfg of
        Inl e \<Rightarrow> (Inl e, w)
      | Inr result \<Rightarrow>
          (case normalize_result result of
             Inl e \<Rightarrow> (Inl e, w)
           | Inr obf \<Rightarrow>
               (let (t, w1) = Date_now w;
                    fname = prefix' @ digits t @ ''.js'';
                    fpath = path_join w (OUTPUT_DIR w) fname
                in case fs_writeFile w1 fpath obf of
                     Inl e \<Rightarrow> (Inl e, w1)
                   | Inr w2 \<Rightarrow> (Inr fname, w2))))"

text \<open>
  \<open>obfuscateWithOptions\<close> (lines 398 to 407). With a password, line 404 replaces a
  missing \<open>presetConfig\<close> by the value of the call \<open>getDefaultConfig()\<close>.
\<close>

definition obfuscateWithOptions ::
  "world \<Rightarrow> string \<Rightarrow> config option \<Rightarrow> bool \<Rightarrow> string option \<Rightarrow> string
     \<Rightarrow> (thrown + string) \<times> world" where
  "obfuscateWithOptions w code presetConfig addAntiBypass password identifierPrefix =
     (let base = wrap_base code addAntiBypass password
      in if truthy password
         then (case (case presetConfig of Some c \<Rightarrow> Inr c | None \<Rightarrow> getDefaultConfig) of
                 Inl e \<Rightarrow> (Inl e, w)
               | Inr c \<Rightarrow> obfuscateAndWrite w base (Some c) identifierPrefix)
         else obfuscateAndWrite w base presetConfig identifierPrefix)"

text \<open>
  The events the server emits on the socket, and the payload of a \<open>start\<close> event:
  the fields \<open>file\<close> (here \<open>file_name\<close>), \<open>preset\<close> and \<open>password\<close> are strings or
  absent, and \<open>antibypass\<close> is read through \<open>!!\<close> only.
\<close>

datatype event =
    Progress (status: string) (percent: nat)
  | Done (filename: string) (download: string)
  | ErrorEvent (message: string)

record start_data =
  file_name :: "string option"
  preset :: "string option"
  password :: "string option"
  antibypass :: bool

definition no_data :: start_data where
  "no_data = \<lparr>file_name = None, preset = None, password = None, antibypass = False\<rparr>"

definition error_message :: "thrown \<Rightarrow> string" where
  "error_message e =
     (case e_message e of
        Some m \<Rightarrow> if m \<noteq> [] then m else e_String e
      | None \<Rightarrow> e_String e)"

text \<open>
  The handler of \<open>start\<close> (lines 415 to 450) gives the events emitted, in order, and
  the world afterwards. Whatever is thrown inside the \<open>try\<close> is caught and becomes one
  \<open>error\<close> event after the events already emitted. \<open>run_job\<close> is the part of the
  \<open>try\<close> block after the two guards (lines 422 to 445), on the path \<open>src\<close>.
\<close>

definition run_job :: "world \<Rightarrow> start_data \<Rightarrow> string \<Rightarrow> event list \<times> world" where
  "run_job w d src =
     (case fs_readFile w src of
        Inl e \<Rightarrow>
          ([Progress ''Reading file...'' 10, ErrorEvent (error_message e)], w)
      | Inr code \<Rightarrow>
          (case resolve_preset (preset d) of
             Inl e \<Rightarrow>
               ([Progress ''Reading file...'' 10,
                 Progress ''Selecting preset...'' 25,
                 ErrorEvent (error_message e)], w)
           | Inr cfg \<Rightarrow>
               (let (t, w1) = Date_now w
                in case obfuscateWithOptions w1 code (Some cfg) (antibypass d)
                          (if truthy (password d) then password d else None)
                          (''enc_'' @ digits t @ ''_'') of
                     (Inl e, w2) \<Rightarrow>
                       ([Progress ''Reading file...'' 10,
                         Progress ''Selecting preset...'' 25,
                         Progress ''Obfuscating...'' 50,
                         ErrorEvent (error_message e)], w2)
                   | (Inr outName, w2) \<Rightarrow>
                       ([Progress ''Reading file...'' 10,
                         Progress ''Selecting preset...'' 25,
                         Progress ''Obfuscating...'' 50,
                         Progress ''Writing result...'' 90,
                         Done outName (''/download/'' @ outName),
                         Progress ''Finished!'' 100], w2))))"

definition on_start :: "world \<Rightarrow> start_data option \<Rightarrow> event list \<times> world" where
  "on_start w data =
     (let d = (case data of None \<Rightarrow> no_data | Some r \<Rightarrow> r)
      in case file_name d of
           None \<Rightarrow> ([ErrorEvent ''No file specified.''], w)
         | Some f \<Rightarrow>
             if f = [] then ([ErrorEvent ''No file specified.''], w)
             else
               (let src = path_join w (UPLOAD_DIR w) f
                in if \<not> fs_existsSync w src then ([ErrorEvent ''File not found.''], w)
                   else run_job w d src))"

text \<open>The percentages of the progress events of a trace, in order, and its \<open>done\<close> events.\<close>

fun percents :: "event list \<Rightarrow> nat list" where
  "percents [] = []"
| "percents (Progress s p # es) = p # percents es"
| "percents (e # es) = percents es"

fun is_done :: "event \<Rightarrow> bool" where
  "is_done (Done f d) = True"
| "is_done e = False"

section \<open>Retention sweep\<close>

text \<open>
  The body of the loop of \<open>cleanupOldFiles\<close> (lines 460 to 467) for one directory
  entry: what \<open>stat\<close> or \<open>remove\<close> throws is swallowed by the inner \<open>catch\<close>.
\<close>

definition sweep_file :: "world \<Rightarrow> string \<Rightarrow> int \<Rightarrow> int \<Rightarrow> string \<Rightarrow> world" where
  "sweep_file w dir now cutoff f =
     (let p = path_join w dir f
      in case fs_stat w p of
           Inl e \<Rightarrow> w
         | Inr st \<Rightarrow>
             (case st of
                Dir \<Rightarrow> w
              | File mtime c \<Rightarrow>
                  if now - mtime > cutoff
                  then (case fs_remove w p of Inl e \<Rightarrow> w | Inr w' \<Rightarrow> w')
                  else w))"

fun sweep_loop :: "world \<Rightarrow> string \<Rightarrow> int \<Rightarrow> int \<Rightarrow> string list \<Rightarrow> world" where
  "sweep_loop w dir now cutoff [] = w"
| "sweep_loop w dir now cutoff (f # fs) =
     sweep_loop (sweep_file w dir now cutoff f) dir now cutoff fs"

text \<open>The statements inside the outer \<open>try\<close> (lines 456 to 468).\<close>

definition sweep_body :: "world \<Rightarrow> string \<Rightarrow> int \<Rightarrow> thrown + world" where
  "sweep_body w dir olderThanDays =
     (case readdir_answer w dir of
        Inl e \<Rightarrow> Inl e
      | Inr files \<Rightarrow>
          (let (now, w1) = Date_now w;
               cutoff = olderThanDays * 24 * 60 * 60 * 1000
           in Inr (sweep_loop w1 dir (int now) cutoff files)))"

text \<open>
  \<open>cleanupOldFiles\<close> (lines 454 to 472): the outer \<open>catch\<close> logs and returns, so the
  promise is fulfilled (\<open>Inr\<close>) with the world as the body left it.
\<close>

definition cleanupOldFiles :: "world \<Rightarrow> string \<Rightarrow> int \<Rightarrow> thrown + world" where
  "cleanupOldFiles w dir olderThanDays =
     (case sweep_body w dir olderThanDays of
        Inl e \<Rightarrow> Inr w
      | Inr w' \<Rightarrow> Inr w')"

text \<open>
  Which paths one sweep removes: the path of a listed entry, a regular file there whose
  age \<open>now - mtimeMs\<close> exceeds the cutoff, and neither \<open>stat\<close> nor \<open>remove\<close> failing on it.
\<close>

definition old_regular_file :: "world \<Rightarrow> int \<Rightarrow> int \<Rightarrow> string \<Rightarrow> bool" where
  "old_regular_file w now cutoff p =
     (case nodes w p of
        Some (File mtime c) \<Rightarrow> now - mtime > cutoff
      | Some Dir \<Rightarrow> False
      | None \<Rightarrow> False)"

definition swept :: "world \<Rightarrow> string \<Rightarrow> int \<Rightarrow> int \<Rightarrow> string list \<Rightarrow> string \<Rightarrow> bool" where
  "swept w dir now cutoff files p =
     (p \<in> set (map (path_join w dir) files) \<and> old_regular_file w now cutoff p \<and>
      stat_fault w p = None \<and> remove_fault w p = None)"

section \<open>A concrete world to run the definitions on\<close>

text \<open>
  An upload directory with a recent file, two old files (\<open>stat\<close> fails on one of
  them) and a subdirectory; the clock starts at 1700000000000 ms and the engine answers
  with a string.
\<close>

definition demo_engine :: "string \<Rightarrow> config option \<Rightarrow> thrown + engine_result" where
  \<open>demo_engine code cfg =
     Inr \<lparr>as_string = Some ''var a=1;'', is_truthy = True, code_string = None,
          toString_call = Some (Inr (JString ''var a=1;'')),
          JSON_stringify = Inr (JString ''"var a=1;"'')\<rparr>\<close>

definition EACCES :: "string \<Rightarrow> string \<Rightarrow> thrown" where
  "EACCES syscall p =
     Thrown (Some (''EACCES: permission denied, '' @ syscall @ '' '' @ quoted p))
            (''Error: EACCES: permission denied, '' @ syscall @ '' '' @ quoted p)"

definition demo_world :: world where
  "demo_world =
     \<lparr>nodes = [''uploads'' \<mapsto> Dir,
               ''output'' \<mapsto> Dir,
               ''uploads/hello.js'' \<mapsto> File 1699999999000 ''console.log(1)'',
               ''uploads/old.js'' \<mapsto> File 1600000000000 ''old()'',
               ''uploads/locked.js'' \<mapsto> File 1600000000000 ''locked()'',
               ''uploads/sub'' \<mapsto> Dir],
      path_join = (\<lambda>d f. d @ ''/'' @ f),
      UPLOAD_DIR = ''uploads'',
      OUTPUT_DIR = ''output'',
      clock = (\<lambda>n. 1700000000000 + n),
      ticks = 0,
      obfuscate = demo_engine,
      readdir_answer =
        (\<lambda>d. if d = ''uploads'' then Inr [''old.js'', ''hello.js'', ''sub'', ''locked.js'']
             else Inl (ENOENT ''scandir'' d)),
      read_fault = (\<lambda>p. None),
      write_fault = (\<lambda>p. None),
      stat_fault = (\<lambda>p. if p = ''uploads/locked.js'' then Some (EACCES ''stat'' p) else None),
      remove_fault = (\<lambda>p. None)\<rparr>"

definition demo_start :: "string \<Rightarrow> string option \<Rightarrow> start_data" where
  "demo_start f p = \<lparr>file_name = Some f, preset = p, password = None, antibypass = False\<rparr>"

section \<open>Running the definitions on the concrete world\<close>

lemma demo_fields:
  "path_join demo_world = (\<lambda>d f. d @ ''/'' @ f)"
  "UPLOAD_DIR demo_world = ''uploads''"
  "OUTPUT_DIR demo_world = ''output''"
  "clock demo_world = (\<lambda>n. 1700000000000 + n)"
  "ticks demo_world = 0"
  "obfuscate demo_world = demo_engine"
  "read_fault demo_world = (\<lambda>p. None)"
  "write_fault demo_world = (\<lambda>p. None)"
  "remove_fault demo_world = (\<lambda>p. None)"
  by (simp_all add: demo_world_def)

lemma demo_nodes:
  "nodes demo_world ''uploads/hello.js'' = Some (File 1699999999000 ''console.log(1)'')"
  "nodes demo_world ''uploads/nope.js'' = None"
  "nodes demo_world ''uploads/old.js'' = Some (File 1600000000000 ''old()'')"
  "nodes demo_world ''uploads/locked.js'' = Some (File 1600000000000 ''locked()'')"
  "nodes demo_world ''uploads/sub'' = Some Dir"
  "nodes demo_world ''output/enc_1700000000000_1700000000001.js'' = None"
  by (simp_all add: demo_world_def)

lemma demo_read: "fs_readFile demo_world ''uploads/hello.js'' = Inr ''console.log(1)''"
  by (simp add: fs_readFile_def demo_fields demo_nodes)

lemma demo_normalize:
  "normalize_result \<lparr>as_string = Some ''var a=1;'', is_truthy = True, code_string = None,
          toString_call = Some (Inr (JString ''var a=1;'')),
          JSON_stringify = Inr (JString j)\<rparr> = Inr (JString ''var a=1;'')"
  by (simp add: normalize_result_def)

lemma digits_demo:
  "digits 1700000000000 = ''1700000000000''" "digits 1700000000001 = ''1700000000001''"
  by (simp_all add: digits.simps digit_char_def)

lemma demo_write:
  "fst (obfuscateAndWrite (snd (Date_now demo_world)) code (Some cfg) ''enc_1700000000000_'') =
     Inr ''enc_1700000000000_1700000000001.js''"
  by (simp add: obfuscateAndWrite_def Date_now_def demo_fields demo_engine_def demo_normalize
      digits_demo fs_writeFile_def demo_nodes Let_def split: prod.split)

lemma toLowerCase_names:
  "toLowerCase [] = []"
  "toLowerCase ''nova'' = ''nova''"
  "toLowerCase ''nebula'' = ''nebula''"
  "toLowerCase ''arab'' = ''arab''"
  "toLowerCase ''japan'' = ''japan''"
  "toLowerCase ''NOVA'' = ''nova''"
  "toLowerCase ''fast'' = ''fast''"
  "toLowerCase ''japanxarab'' = ''japanxarab''"
  "toLowerCase ''ultra-safe'' = ''ultra-safe''"
  by (simp_all add: toLowerCase_def lower_char_def)

lemma demo_nova_trace:
  "fst (on_start demo_world (Some (demo_start ''hello.js'' (Some ''nova'')))) =
     [Progress ''Reading file...'' 10, Progress ''Selecting preset...'' 25,
      Progress ''Obfuscating...'' 50, Progress ''Writing result...'' 90,
      Done ''enc_1700000000000_1700000000001.js''
        ''/download/enc_1700000000000_1700000000001.js'',
      Progress ''Finished!'' 100]"
proof -
  have r: "resolve_preset (Some ''nova'') = Inr getNovaObfuscationConfig"
    by (simp add: resolve_preset_def toLowerCase_names)
  have ob: "obfuscateWithOptions (snd (Date_now demo_world)) ''console.log(1)''
              (Some getNovaObfuscationConfig) False None ''enc_1700000000000_'' =
            (Inr ''enc_1700000000000_1700000000001.js'',
             snd (obfuscateAndWrite (snd (Date_now demo_world)) ''console.log(1)''
                    (Some getNovaObfuscationConfig) ''enc_1700000000000_''))"
    using demo_write[of "''console.log(1)''" getNovaObfuscationConfig]
    by (simp add: obfuscateWithOptions_def truthy_def wrap_base_def prod_eq_iff)
  have dn: "Date_now demo_world = (1700000000000, snd (Date_now demo_world))"
    by (simp add: Date_now_def demo_fields)
  have "run_job demo_world (demo_start ''hello.js'' (Some ''nova'')) ''uploads/hello.js'' =
     ([Progress ''Reading file...'' 10, Progress ''Selecting preset...'' 25,
       Progress ''Obfuscating...'' 50, Progress ''Writing result...'' 90,
       Done ''enc_1700000000000_1700000000001.js''
         ''/download/enc_1700000000000_1700000000001.js'',
       Progress ''Finished!'' 100],
      snd (obfuscateAndWrite (snd (Date_now demo_world)) ''console.log(1)''
             (Some getNovaObfuscationConfig) ''enc_1700000000000_''))"
    unfolding run_job_def demo_read
    by (subst dn) (simp add: demo_start_def r truthy_def digits_demo ob)
  then show ?thesis
    by (simp add: on_start_def demo_start_def demo_fields fs_existsSync_def demo_nodes)
qed

section \<open>Preset resolution\<close>

lemma resolve_preset_unrecognized:
  assumes "toLowerCase (case p of None \<Rightarrow> [] | Some s \<Rightarrow> s)
             \<notin> {''nova'', ''nebula'', ''arab'', ''japan''}"
  shows "resolve_preset p =
           Inl (Thrown (Some ''getDefaultConfig is not defined'')
                       ''ReferenceError: getDefaultConfig is not defined'')"
  using assms by (simp add: resolve_preset_def Let_def getDefaultConfig_def)

lemma resolve_preset_Inr:
  assumes "resolve_preset p = Inr c"
  shows "c = getNovaObfuscationConfig \<or> c = getNebulaObfuscationConfig \<or>
         c = getArabObfuscationConfig \<or> c = getJapanObfuscationConfig"
  using assms
  by (auto simp add: resolve_preset_def Let_def getDefaultConfig_def split: if_splits)

lemma generator_of_configs:
  "map_of getNovaObfuscationConfig ''identifierGenerator'' = Some (VGen GenerateNovaName)"
  "map_of getNebulaObfuscationConfig ''identifierGenerator'' = Some (VGen GenerateNebulaName)"
  "map_of getArabObfuscationConfig ''identifierGenerator'' = Some (VGen GenerateArabicName)"
  "map_of getJapanObfuscationConfig ''identifierGenerator'' = Some (VGen GenerateJapaneseName)"
  "map_of getJapanxArabObfuscationConfig ''identifierGenerator'' =
     Some (VGen GenerateJapaneseXArabName)"
  "map_of getUltraSafeConfig ''identifierGenerator'' = Some (VStr ''zeroWidth'')"
  by (simp_all add: getNovaObfuscationConfig_def getNebulaObfuscationConfig_def
      getArabObfuscationConfig_def getJapanObfuscationConfig_def
      getJapanxArabObfuscationConfig_def getUltraSafeConfig_def)

lemma resolve_preset_generator:
  assumes "resolve_preset p = Inr c"
  shows "map_of c ''identifierGenerator'' = Some (VGen GenerateNovaName) \<or>
         map_of c ''identifierGenerator'' = Some (VGen GenerateNebulaName) \<or>
         map_of c ''identifierGenerator'' = Some (VGen GenerateArabicName) \<or>
         map_of c ''identifierGenerator'' = Some (VGen GenerateJapaneseName)"
  using resolve_preset_Inr[OF assms] generator_of_configs(1-4) by auto

text \<open>
  The four names the chain compares with are resolved, whatever their case, and each
  config has \<open>target: "node"\<close>.
\<close>

lemma recognized_presets:
  "resolve_preset (Some ''nova'') = Inr getNovaObfuscationConfig"
  "resolve_preset (Some ''nebula'') = Inr getNebulaObfuscationConfig"
  "resolve_preset (Some ''arab'') = Inr getArabObfuscationConfig"
  "resolve_preset (Some ''japan'') = Inr getJapanObfuscationConfig"
  "resolve_preset (Some ''NOVA'') = Inr getNovaObfuscationConfig"
  by (simp_all add: resolve_preset_def toLowerCase_names)

lemma resolved_config_has_target:
  assumes "resolve_preset p = Inr c"
  shows "map_of c ''target'' = Some (VStr ''node'')"
  using resolve_preset_Inr[OF assms]
  by (auto simp add: getNovaObfuscationConfig_def getNebulaObfuscationConfig_def
      getArabObfuscationConfig_def getJapanObfuscationConfig_def)

text \<open>
  A job whose upload was read and whose preset name is none of the four compared names
  ends at the call of \<open>getDefaultConfig\<close>.
\<close>

lemma fallback_job_events:
  assumes "toLowerCase (case preset d of None \<Rightarrow> [] | Some s \<Rightarrow> s)
             \<notin> {''nova'', ''nebula'', ''arab'', ''japan''}"
    and "file_name d = Some f" and "f \<noteq> []"
    and "fs_readFile w (path_join w (UPLOAD_DIR w) f) = Inr code"
  shows "on_start w (Some d) =
           ([Progress ''Reading file...'' 10, Progress ''Selecting preset...'' 25,
             ErrorEvent ''getDefaultConfig is not defined''], w)"
proof -
  have ex: "fs_existsSync w (path_join w (UPLOAD_DIR w) f)"
    using assms(4) by (auto simp add: fs_readFile_def fs_existsSync_def split: option.splits)
  show ?thesis
    using assms(2,3) ex
    by (simp add: on_start_def run_job_def assms(4) resolve_preset_unrecognized[OF assms(1)]
        error_message_def)
qed

text \<open>
  C1. A start request whose preset is absent, empty or not one of the four compared
  names reaches the call of the undeclared \<open>getDefaultConfig\<close>: resolution throws a
  \<open>ReferenceError\<close>, and a job whose upload was read ends after two progress events
  with an error event, the world unchanged. The claim promises the baseline config and
  a job that proceeds.
\<close>

theorem unrecognized_preset_fails_job:
  assumes "toLowerCase (case preset d of None \<Rightarrow> [] | Some s \<Rightarrow> s)
             \<notin> {''nova'', ''nebula'', ''arab'', ''japan''}"
    and "file_name d = Some f" and "f \<noteq> []"
    and "fs_readFile w (path_join w (UPLOAD_DIR w) f) = Inr code"
  shows "resolve_preset (preset d) =
           Inl (Thrown (Some ''getDefaultConfig is not defined'')
                       ''ReferenceError: getDefaultConfig is not defined'') \<and>
         on_start w (Some d) =
           ([Progress ''Reading file...'' 10, Progress ''Selecting preset...'' 25,
             ErrorEvent ''getDefaultConfig is not defined''], w)"
  using resolve_preset_unrecognized[OF assms(1)] fallback_job_events[OF assms]
  by simp

theorem unrecognized_preset_fails_job_witness:
  "resolve_preset None =
     Inl (Thrown (Some ''getDefaultConfig is not defined'')
                 ''ReferenceError: getDefaultConfig is not defined'') \<and>
   on_start demo_world (Some (demo_start ''hello.js'' None)) =
     ([Progress ''Reading file...'' 10, Progress ''Selecting preset...'' 25,
       ErrorEvent ''getDefaultConfig is not defined''], demo_world)"
  using unrecognized_preset_fails_job[of "demo_start ''hello.js'' None" "''hello.js''"
          demo_world "''console.log(1)''"]
  by (simp add: demo_start_def toLowerCase_names demo_fields demo_read)

text \<open>
  C2. The lock policy of the \<open>nova\<close> config switches on three guards, self-defense,
  anti-debug and integrity; it has no tamper-protection entry, so the claim of four
  guards fails on the fourth.
\<close>

theorem nova_lock_three_guards:
  "resolve_preset (Some ''nova'') = Inr getNovaObfuscationConfig \<and>
   lock_of getNovaObfuscationConfig =
     Some [(''antiDebug'', True), (''integrity'', True), (''selfDefending'', True)] \<and>
   guard_enabled getNovaObfuscationConfig ''selfDefending'' \<and>
   guard_enabled getNovaObfuscationConfig ''antiDebug'' \<and>
   guard_enabled getNovaObfuscationConfig ''integrity'' \<and>
   \<not> guard_enabled getNovaObfuscationConfig ''tamperProtection''"
  by (simp add: resolve_preset_def toLowerCase_names guard_enabled_def lock_of_def
      getNovaObfuscationConfig_def)

text \<open>
  The claim as stated, all four guards switched on, is false for this config.
\<close>

theorem nova_lock_counterexample:
  "\<not> (guard_enabled getNovaObfuscationConfig ''selfDefending'' \<and>
      guard_enabled getNovaObfuscationConfig ''antiDebug'' \<and>
      guard_enabled getNovaObfuscationConfig ''integrity'' \<and>
      guard_enabled getNovaObfuscationConfig ''tamperProtection'')"
  by (simp add: guard_enabled_def lock_of_def getNovaObfuscationConfig_def)

text \<open>
  C7. No preset name resolves to the config of \<open>getJapanxArabObfuscationConfig\<close> or of
  \<open>getUltraSafeConfig\<close>: the chain has no branch for either, and the names
  \<open>japanxarab\<close> and \<open>ultra-safe\<close> fall through to the call that throws, so a job
  started with either name ends with an error event. The claim promises each of the six
  presets its own config.
\<close>

theorem japanxarab_and_ultrasafe_unreachable:
  "(\<forall>p. resolve_preset p \<noteq> Inr getJapanxArabObfuscationConfig \<and>
        resolve_preset p \<noteq> Inr getUltraSafeConfig) \<and>
   resolve_preset (Some ''japanxarab'') =
     Inl (Thrown (Some ''getDefaultConfig is not defined'')
                 ''ReferenceError: getDefaultConfig is not defined'') \<and>
   resolve_preset (Some ''ultra-safe'') =
     Inl (Thrown (Some ''getDefaultConfig is not defined'')
                 ''ReferenceError: getDefaultConfig is not defined'') \<and>
   on_start demo_world (Some (demo_start ''hello.js'' (Some ''japanxarab''))) =
     ([Progress ''Reading file...'' 10, Progress ''Selecting preset...'' 25,
       ErrorEvent ''getDefaultConfig is not defined''], demo_world) \<and>
   on_start demo_world (Some (demo_start ''hello.js'' (Some ''ultra-safe''))) =
     ([Progress ''Reading file...'' 10, Progress ''Selecting preset...'' 25,
       ErrorEvent ''getDefaultConfig is not defined''], demo_world)"
proof -
  have "resolve_preset p \<noteq> Inr getJapanxArabObfuscationConfig" for p
    using resolve_preset_generator[of p getJapanxArabObfuscationConfig]
    by (auto simp add: generator_of_configs(5))
  moreover have "resolve_preset p \<noteq> Inr getUltraSafeConfig" for p
    using resolve_preset_generator[of p getUltraSafeConfig]
    by (auto simp add: generator_of_configs(6))
  moreover have "resolve_preset (Some ''japanxarab'') =
     Inl (Thrown (Some ''getDefaultConfig is not defined'')
                 ''ReferenceError: getDefaultConfig is not defined'')"
    by (rule resolve_preset_unrecognized) (simp add: toLowerCase_names)
  moreover have "resolve_preset (Some ''ultra-safe'') =
     Inl (Thrown (Some ''getDefaultConfig is not defined'')
                 ''ReferenceError: getDefaultConfig is not defined'')"
    by (rule resolve_preset_unrecognized) (simp add: toLowerCase_names)
  moreover have "on_start demo_world (Some (demo_start ''hello.js'' (Some ''japanxarab''))) =
     ([Progress ''Reading file...'' 10, Progress ''Selecting preset...'' 25,
       ErrorEvent ''getDefaultConfig is not defined''], demo_world)"
    by (rule fallback_job_events[where f = "''hello.js''" and code = "''console.log(1)''"])
       (simp_all add: demo_start_def toLowerCase_names demo_fields demo_read)
  moreover have "on_start demo_world (Some (demo_start ''hello.js'' (Some ''ultra-safe''))) =
     ([Progress ''Reading file...'' 10, Progress ''Selecting preset...'' 25,
       ErrorEvent ''getDefaultConfig is not defined''], demo_world)"
    by (rule fallback_job_events[where f = "''hello.js''" and code = "''console.log(1)''"])
       (simp_all add: demo_start_def toLowerCase_names demo_fields demo_read)
  ultimately show ?thesis by blast
qed

section \<open>Code wrapper: the text handed to the engine\<close>

lemma wrap_base_password:
  assumes "pw \<noteq> []"
  shows "wrap_base code ab (Some pw) =
           createPasswordTemplate (base64_encode pw) (wrap_base code ab None)"
  using assms by (simp add: wrap_base_def Let_def)

lemma wrap_base_no_password:
  "wrap_base code True None = TByypas @ ''\<newline>'' @ code"
  "wrap_base code False None = code"
  by (simp_all add: wrap_base_def)

text \<open>An empty password is falsy: the text is the one without a password.\<close>

lemma wrap_base_empty_password: "wrap_base code ab (Some []) = wrap_base code ab None"
  by (simp add: wrap_base_def)


subsection \<open>Base64 decoding inverts encoding\<close>







lemma sextet_bounds:
  fixes x y z :: nat
  assumes "x < 256" "y < 256" "z < 256"
  shows "x div 4 < 64" "(x mod 4) * 16 + y div 16 < 64" "(y mod 16) * 4 + z div 64 < 64"
    "z mod 64 < 64" "(x mod 4) * 16 < 64" "(y mod 16) * 4 < 64"
  using assms by auto











lemma base64_examples:
  "base64_encode ''secret'' = ''c2VjcmV0''"
  "base64_encode ''x'' = ''eA==''"
  "base64_encode ''hunter2'' = ''aHVudGVyMg==''"
  by (simp_all add: b64_char_def b64_alphabet_def)

subsection \<open>Order of the blocks\<close>

text \<open>
  C4. With the anti-bypass flag and a (non-empty) password, the text handed to the
  engine is the guard, then the password gate with the encoded password, then the guard
  and the source inside the gate, then the end of the gate: the guard block stands
  before the gate block, and the source is a substring of the text, unchanged.
\<close>

theorem antibypass_before_gate:
  assumes "pw \<noteq> []"
  shows "wrap_base code True (Some pw) =
           TByypas @ gate_head (base64_encode pw) @ (TByypas @ ''\<newline>'' @ code) @ gate_tail \<and>
         prefix (TByypas @ gate_head (base64_encode pw)) (wrap_base code True (Some pw)) \<and>
         sublist code (wrap_base code True (Some pw))"
proof -
  have eq: "wrap_base code True (Some pw) =
           TByypas @ gate_head (base64_encode pw) @ (TByypas @ ''\<newline>'' @ code) @ gate_tail"
    by (simp add: wrap_base_password[OF assms] wrap_base_no_password createPasswordTemplate_def)
  have "wrap_base code True (Some pw) =
          (TByypas @ gate_head (base64_encode pw) @ TByypas @ ''\<newline>'') @ code @ gate_tail"
    by (simp add: eq)
  then have "sublist code (wrap_base code True (Some pw))"
    unfolding sublist_def by blast
  moreover have "prefix (TByypas @ gate_head (base64_encode pw)) (wrap_base code True (Some pw))"
    unfolding eq prefix_def by simp
  ultimately show ?thesis using eq by simp
qed

theorem antibypass_before_gate_witness:
  "''x'' \<noteq> [] \<and>
   wrap_base ''console.log(1)'' True (Some ''x'') =
     TByypas @ gate_head ''eA=='' @ (TByypas @ ''\<newline>'' @ ''console.log(1)'') @ gate_tail \<and>
   prefix (TByypas @ gate_head ''eA=='') (wrap_base ''console.log(1)'' True (Some ''x'')) \<and>
   sublist ''console.log(1)'' (wrap_base ''console.log(1)'' True (Some ''x''))"
proof -
  have h: "''x'' \<noteq> []" by simp
  from antibypass_before_gate[OF h, of "''console.log(1)''", unfolded base64_examples] h
  show ?thesis by blast
qed

subsection \<open>The password template\<close>

lemma brace_depth_append: "brace_depth (a @ b) = brace_depth a + brace_depth b"
  by (simp add: brace_depth_def)

lemma b64_brace_table:
  "list_all (\<lambda>i. b64_char i \<noteq> CHR ''{'' \<and> b64_char i \<noteq> CHR ''}'') [0..<64]"
  by code_simp

lemma b64_char_no_brace:
  assumes "i < 64"
  shows "b64_char i \<noteq> CHR ''{''" "b64_char i \<noteq> CHR ''}''"
  using b64_brace_table assms by (simp_all add: list_all_iff)

lemma base64_encode_no_brace:
  "count_list (base64_encode bs) (CHR ''{'') = 0 \<and> count_list (base64_encode bs) (CHR ''}'') = 0"
proof (induction bs rule: base64_encode.induct)
  case (1 a b c rest)
  have lt: "(of_char a :: nat) < 256" "(of_char b :: nat) < 256" "(of_char c :: nat) < 256"
    by (simp_all add: String.nat_of_char_less_256)
  note sb = sextet_bounds[OF lt]
  show ?case
    using 1 b64_char_no_brace[OF sb(1)] b64_char_no_brace[OF sb(2)]
      b64_char_no_brace[OF sb(3)] b64_char_no_brace[OF sb(4)]
    by (simp add: Let_def)
next
  case (2 a b)
  have lt: "(of_char a :: nat) < 256" "(of_char b :: nat) < 256"
    by (simp_all add: String.nat_of_char_less_256)
  note sb = sextet_bounds[OF lt lt(1)]
  show ?case
    using b64_char_no_brace[OF sb(1)] b64_char_no_brace[OF sb(2)] b64_char_no_brace[OF sb(6)]
    by (simp add: Let_def)
next
  case (3 a)
  have lt: "(of_char a :: nat) < 256"
    by (simp_all add: String.nat_of_char_less_256)
  note sb = sextet_bounds[OF lt lt lt]
  show ?case
    using b64_char_no_brace[OF sb(1)] b64_char_no_brace[OF sb(5)]
    by (simp add: Let_def)
next
  case 4
  show ?case by simp
qed

lemma brace_depth_base64: "brace_depth (base64_encode bs) = 0"
  by (simp add: brace_depth_def base64_encode_no_brace)

lemma gate_head_depth: "brace_depth (gate_head enc) = 2 + brace_depth enc"
  by (simp add: gate_head_def brace_depth_def)


text \<open>A payload that is one statement without braces stays inside the callback.\<close>

lemma plain_payload_inside_callback:
  "spec_payload_inside_callback (base64_encode pw) ''console.log(1)''"
proof -
  have "2 \<le> brace_depth (gate_head (base64_encode pw) @ take n ''console.log(1)'')" for n
  proof -
    have "set (take n ''console.log(1)'') \<subseteq> set ''console.log(1)''"
      by (rule set_take_subset)
    then have "count_list (take n ''console.log(1)'') (CHR ''{'') = 0"
      "count_list (take n ''console.log(1)'') (CHR ''}'') = 0"
      by (auto simp add: count_list_0_iff)
    then have "brace_depth (take n ''console.log(1)'') = 0"
      by (simp add: brace_depth_def)
    then show ?thesis
      by (simp add: brace_depth_append gate_head_depth brace_depth_base64)
  qed
  then show ?thesis
    by (simp add: spec_payload_inside_callback_def list_all_iff)
qed




text \<open>
  C10. With a (non-empty) password and the anti-bypass flag false, the text handed to
  the engine still starts with the guard, because the template itself starts with it;
  with the flag true the guard stands twice, once before the gate and once inside it,
  in front of the source.
\<close>

theorem password_template_always_has_guard:
  assumes "pw \<noteq> []"
  shows "wrap_base code False (Some pw) =
           TByypas @ gate_head (base64_encode pw) @ code @ gate_tail \<and>
         prefix TByypas (wrap_base code False (Some pw)) \<and>
         wrap_base code True (Some pw) =
           TByypas @ gate_head (base64_encode pw) @ TByypas @ ''\<newline>'' @ code @ gate_tail"
  by (simp add: wrap_base_password[OF assms] wrap_base_no_password createPasswordTemplate_def)

theorem password_template_always_has_guard_witness:
  "''x'' \<noteq> [] \<and>
   wrap_base ''f()'' False (Some ''x'') = TByypas @ gate_head ''eA=='' @ ''f()'' @ gate_tail \<and>
   prefix TByypas (wrap_base ''f()'' False (Some ''x'')) \<and>
   wrap_base ''f()'' True (Some ''x'') =
     TByypas @ gate_head ''eA=='' @ TByypas @ ''\<newline>'' @ ''f()'' @ gate_tail"
proof -
  have h: "''x'' \<noteq> []" by simp
  from password_template_always_has_guard[OF h, of "''f()''", unfolded base64_examples] h
  show ?thesis by blast
qed

section \<open>Normalising the engine's result\<close>

text \<open>
  C8. The value written is the result itself when it is a string; for a truthy result
  it is the string \<open>code\<close> field, else what the callable \<open>toString\<close> gives, else what
  \<open>JSON.stringify\<close> gives; for a falsy result that is not a string it is what
  \<open>JSON.stringify\<close> gives, whatever \<open>code\<close> and \<open>toString\<close> are. The order of the
  claim holds on strings and truthy results only.
\<close>

theorem normalize_priority_order:
  "normalize_result r =
     (if as_string r = None \<and> \<not> is_truthy r then JSON_stringify r
      else spec_normalize_result r)"
  by (cases "as_string r"; cases "code_string r"; cases "toString_call r")
     (simp_all add: normalize_result_def spec_normalize_result_def)

theorem normalize_priority_order_witness:
  "normalize_result \<lparr>as_string = None, is_truthy = True, code_string = Some ''var a;'',
       toString_call = Some (Inr (JString ''[object Object]'')),
       JSON_stringify = Inr (JString ''{}'')\<rparr> = Inr (JString ''var a;'') \<and>
   normalize_result \<lparr>as_string = None, is_truthy = True, code_string = None,
       toString_call = Some (Inr (JString ''[object Object]'')),
       JSON_stringify = Inr (JString ''{}'')\<rparr> = Inr (JString ''[object Object]'') \<and>
   normalize_result \<lparr>as_string = None, is_truthy = False, code_string = None,
       toString_call = None, JSON_stringify = Inr (JString ''null'')\<rparr> = Inr (JString ''null'')"
  using normalize_priority_order[of "\<lparr>as_string = None, is_truthy = True, code_string = Some ''var a;'',
       toString_call = Some (Inr (JString ''[object Object]'')),
       JSON_stringify = Inr (JString ''{}'')\<rparr>"]
    normalize_priority_order[of "\<lparr>as_string = None, is_truthy = True, code_string = None,
       toString_call = Some (Inr (JString ''[object Object]'')),
       JSON_stringify = Inr (JString ''{}'')\<rparr>"]
    normalize_priority_order[of "\<lparr>as_string = None, is_truthy = False, code_string = None,
       toString_call = None, JSON_stringify = Inr (JString ''null'')\<rparr>"]
  by (simp add: spec_normalize_result_def)

text \<open>
  The claim as stated fails on the result \<open>NaN\<close>: it is no string, has no \<open>code\<close>
  and exposes a callable \<open>toString\<close>, which gives \<open>"NaN"\<close>; the server writes
  \<open>"null"\<close>, from \<open>JSON.stringify\<close>.
\<close>

theorem normalize_NaN_counterexample:
  "as_string result_NaN = None \<and> code_string result_NaN = None \<and>
   toString_call result_NaN = Some (Inr (JString ''NaN'')) \<and>
   spec_normalize_result result_NaN = Inr (JString ''NaN'') \<and>
   normalize_result result_NaN = Inr (JString ''null'') \<and>
   normalize_result result_NaN \<noteq> spec_normalize_result result_NaN"
  by (simp add: result_NaN_def normalize_result_def spec_normalize_result_def)

section \<open>The job and its events\<close>

lemma Date_now_fields:
  "nodes (snd (Date_now w)) = nodes w"
  "path_join (snd (Date_now w)) = path_join w"
  "stat_fault (snd (Date_now w)) = stat_fault w"
  "remove_fault (snd (Date_now w)) = remove_fault w"
  "write_fault (snd (Date_now w)) = write_fault w"
  "OUTPUT_DIR (snd (Date_now w)) = OUTPUT_DIR w"
  "fst (Date_now w) = clock w (ticks w)"
  by (simp_all add: Date_now_def)

lemma fs_writeFile_node:
  assumes "fs_writeFile w p data = Inr w2"
  shows "\<exists>t s. data = JString s \<and> nodes w2 p = Some (File t s)"
  using assms
  by (cases data; cases "write_fault w p"; cases "nodes w p = Some Dir")
     (auto simp add: fs_writeFile_def)

lemma obfuscateAndWrite_artifact:
  assumes "obfuscateAndWrite w code cfg pre = (Inr fname, w2)"
  shows "\<exists>t s. nodes w2 (path_join w (OUTPUT_DIR w) fname) = Some (File t s)"
proof -
  from assms obtain result obf where
    "obfuscate w code cfg = Inr result" "normalize_result result = Inr obf"
    by (auto simp add: obfuscateAndWrite_def split: sum.splits)
  with assms have "fs_writeFile (snd (Date_now w)) (path_join w (OUTPUT_DIR w) fname) obf = Inr w2"
    by (auto simp add: obfuscateAndWrite_def Let_def split: sum.splits prod.splits)
  from fs_writeFile_node[OF this] show ?thesis by blast
qed

lemma obfuscateWithOptions_artifact:
  assumes "obfuscateWithOptions w code cfg ab pw pre = (Inr fname, w2)"
  shows "\<exists>t s. nodes w2 (path_join w (OUTPUT_DIR w) fname) = Some (File t s)"
  using assms
  by (auto simp add: obfuscateWithOptions_def Let_def getDefaultConfig_def
      split: if_splits option.splits sum.splits dest: obfuscateAndWrite_artifact)


lemma run_job_success:
  assumes "list_ex is_done (fst (run_job w d src))"
  shows "\<exists>outName t s.
           fst (run_job w d src) =
             [Progress ''Reading file...'' 10, Progress ''Selecting preset...'' 25,
              Progress ''Obfuscating...'' 50, Progress ''Writing result...'' 90,
              Done outName (''/download/'' @ outName), Progress ''Finished!'' 100] \<and>
           nodes (snd (run_job w d src)) (path_join w (OUTPUT_DIR w) outName) = Some (File t s)"
proof (cases "fs_readFile w src")
  case (Inl e)
  with assms show ?thesis by (simp add: run_job_def)
next
  case (Inr code)
  note rd = Inr
  show ?thesis
  proof (cases "resolve_preset (preset d)")
    case (Inl e)
    with assms rd show ?thesis by (simp add: run_job_def)
  next
    case (Inr cfg)
    define w1 where "w1 = snd (Date_now w)"
    define pre where "pre = ''enc_'' @ digits (fst (Date_now w)) @ ''_''"
    define r where "r = obfuscateWithOptions w1 code (Some cfg) (antibypass d)
                          (if truthy (password d) then password d else None) pre"
    have unf: "run_job w d src =
       (case r of
          (Inl e, w2) \<Rightarrow>
            ([Progress ''Reading file...'' 10, Progress ''Selecting preset...'' 25,
              Progress ''Obfuscating...'' 50, ErrorEvent (error_message e)], w2)
        | (Inr outName, w2) \<Rightarrow>
            ([Progress ''Reading file...'' 10, Progress ''Selecting preset...'' 25,
              Progress ''Obfuscating...'' 50, Progress ''Writing result...'' 90,
              Done outName (''/download/'' @ outName), Progress ''Finished!'' 100], w2))"
      by (simp add: run_job_def rd Inr r_def pre_def w1_def split: prod.split)
    obtain res w2 where r2: "r = (res, w2)" by (cases r)
    show ?thesis
    proof (cases res)
      case (Inl e)
      with assms show ?thesis by (simp add: unf r2)
    next
      case (Inr outName)
      have "obfuscateWithOptions w1 code (Some cfg) (antibypass d)
              (if truthy (password d) then password d else None) pre = (Inr outName, w2)"
        using r2 Inr by (simp add: r_def)
      from obfuscateWithOptions_artifact[OF this]
      obtain t s where "nodes w2 (path_join w1 (OUTPUT_DIR w1) outName) = Some (File t s)"
        by blast
      then have "nodes w2 (path_join w (OUTPUT_DIR w) outName) = Some (File t s)"
        by (simp add: w1_def Date_now_fields)
      then show ?thesis by (simp add: unf r2 Inr)
    qed
  qed
qed

lemma on_start_run_job:
  assumes "list_ex is_done (fst (on_start w data))"
  shows "\<exists>d src. on_start w data = run_job w d src"
  using assms
  by (auto simp add: on_start_def Let_def split: option.splits if_splits)

text \<open>
  C3. A job that emits a \<open>done\<close> event emits exactly the progress events 10, 25, 50,
  90, then \<open>done\<close> with the file name and the download path \<open>/download/\<close> followed by that
  name, then the one progress event 100; the percentages increase strictly, and the
  named file is in the output directory afterwards.
\<close>

theorem successful_job_progress:
  assumes "list_ex is_done (fst (on_start w data))"
  shows "percents (fst (on_start w data)) = [10, 25, 50, 90, 100] \<and>
         sorted_wrt (<) (percents (fst (on_start w data))) \<and>
         count_list (percents (fst (on_start w data))) 100 = 1 \<and>
         (\<exists>outName t s.
            fst (on_start w data) =
              [Progress ''Reading file...'' 10, Progress ''Selecting preset...'' 25,
               Progress ''Obfuscating...'' 50, Progress ''Writing result...'' 90,
               Done outName (''/download/'' @ outName), Progress ''Finished!'' 100] \<and>
            nodes (snd (on_start w data)) (path_join w (OUTPUT_DIR w) outName) =
              Some (File t s))"
proof -
  from on_start_run_job[OF assms] obtain d src where
    run: "on_start w data = run_job w d src" by blast
  from run_job_success[of w d src] assms obtain outName t s where
    tr: "fst (on_start w data) =
           [Progress ''Reading file...'' 10, Progress ''Selecting preset...'' 25,
            Progress ''Obfuscating...'' 50, Progress ''Writing result...'' 90,
            Done outName (''/download/'' @ outName), Progress ''Finished!'' 100]"
    and art: "nodes (snd (on_start w data)) (path_join w (OUTPUT_DIR w) outName) =
                Some (File t s)"
    unfolding run by blast
  have p: "percents (fst (on_start w data)) = [10, 25, 50, 90, 100]"
    by (simp add: tr)
  have "sorted_wrt (<) (percents (fst (on_start w data)))"
    "count_list (percents (fst (on_start w data))) 100 = 1"
    by (simp_all add: p)
  with p tr art show ?thesis by blast
qed


theorem successful_job_progress_witness:
  "list_ex is_done (fst (on_start demo_world (Some (demo_start ''hello.js'' (Some ''nova''))))) \<and>
   percents (fst (on_start demo_world (Some (demo_start ''hello.js'' (Some ''nova''))))) =
     [10, 25, 50, 90, 100] \<and>
   fst (on_start demo_world (Some (demo_start ''hello.js'' (Some ''nova'')))) =
     [Progress ''Reading file...'' 10, Progress ''Selecting preset...'' 25,
      Progress ''Obfuscating...'' 50, Progress ''Writing result...'' 90,
      Done ''enc_1700000000000_1700000000001.js''
        ''/download/enc_1700000000000_1700000000001.js'',
      Progress ''Finished!'' 100]"
proof -
  have h: "list_ex is_done
             (fst (on_start demo_world (Some (demo_start ''hello.js'' (Some ''nova'')))))"
    by (simp add: demo_nova_trace)
  from successful_job_progress[OF h] h demo_nova_trace show ?thesis by blast
qed

text \<open>
  C6. A start request that names a file which is not in the upload directory yields the
  single event \<open>error\<close> with the message \<open>File not found.\<close>: no progress event and no
  \<open>done\<close> event, and the world, the output directory included, is left as it was.
\<close>

theorem missing_upload_single_error:
  assumes "file_name r = Some f" and "f \<noteq> []"
    and "\<not> fs_existsSync w (path_join w (UPLOAD_DIR w) f)"
  shows "on_start w (Some r) = ([ErrorEvent ''File not found.''], w) \<and>
         percents (fst (on_start w (Some r))) = [] \<and>
         \<not> list_ex is_done (fst (on_start w (Some r))) \<and>
         nodes (snd (on_start w (Some r))) = nodes w"
proof -
  have "on_start w (Some r) = ([ErrorEvent ''File not found.''], w)"
    using assms by (simp add: on_start_def Let_def)
  then show ?thesis by simp
qed

theorem missing_upload_single_error_witness:
  "file_name (demo_start ''nope.js'' (Some ''nova'')) = Some ''nope.js'' \<and>
   ''nope.js'' \<noteq> [] \<and>
   \<not> fs_existsSync demo_world (path_join demo_world (UPLOAD_DIR demo_world) ''nope.js'') \<and>
   on_start demo_world (Some (demo_start ''nope.js'' (Some ''nova''))) =
     ([ErrorEvent ''File not found.''], demo_world)"
proof -
  have a: "file_name (demo_start ''nope.js'' (Some ''nova'')) = Some ''nope.js''"
    by (simp add: demo_start_def)
  have b: "''nope.js'' \<noteq> []" by simp
  have c: "\<not> fs_existsSync demo_world
               (path_join demo_world (UPLOAD_DIR demo_world) ''nope.js'')"
    by (simp add: fs_existsSync_def demo_fields demo_nodes)
  from missing_upload_single_error[OF a b c] a b c show ?thesis by blast
qed

section \<open>The retention sweep\<close>

lemma sweep_file_nodes:
  "nodes (sweep_file w dir now cutoff f) p =
     (if p = path_join w dir f \<and> old_regular_file w now cutoff p \<and>
         stat_fault w p = None \<and> remove_fault w p = None
      then None else nodes w p)"
  by (simp add: sweep_file_def fs_stat_def fs_remove_def old_regular_file_def Let_def
      split: option.split node.split)

lemma sweep_file_fields:
  "path_join (sweep_file w dir now cutoff f) = path_join w"
  "stat_fault (sweep_file w dir now cutoff f) = stat_fault w"
  "remove_fault (sweep_file w dir now cutoff f) = remove_fault w"
  by (simp_all add: sweep_file_def fs_stat_def fs_remove_def Let_def
      split: option.split node.split)

lemma sweep_file_old:
  "old_regular_file (sweep_file w dir now cutoff f) now cutoff p =
     (old_regular_file w now cutoff p \<and>
      \<not> (p = path_join w dir f \<and> stat_fault w p = None \<and> remove_fault w p = None))"
  by (cases "nodes w p") (auto simp add: old_regular_file_def sweep_file_nodes split: node.splits)

lemma swept_Nil: "\<not> swept w dir now cutoff [] p"
  by (simp add: swept_def)

lemma swept_Cons:
  "swept w dir now cutoff (f # fs) p =
     ((p = path_join w dir f \<and> old_regular_file w now cutoff p \<and>
       stat_fault w p = None \<and> remove_fault w p = None) \<or> swept w dir now cutoff fs p)"
  by (auto simp add: swept_def)

lemma swept_after_file:
  "swept (sweep_file w dir now cutoff f) dir now cutoff fs p =
     (swept w dir now cutoff fs p \<and> p \<noteq> path_join w dir f)"
  by (auto simp add: swept_def sweep_file_fields sweep_file_old)

lemma swept_removable:
  assumes "swept w dir now cutoff fs p"
  shows "old_regular_file w now cutoff p" "stat_fault w p = None" "remove_fault w p = None"
  using assms by (simp_all add: swept_def)

lemma sweep_loop_nodes:
  "nodes (sweep_loop w dir now cutoff fs) p =
     (if swept w dir now cutoff fs p then None else nodes w p)"
proof (induction fs arbitrary: w)
  case Nil
  show ?case by (simp add: swept_Nil)
next
  case (Cons f fs)
  have "nodes (sweep_loop w dir now cutoff (f # fs)) p =
          (if swept w dir now cutoff fs p \<and> p \<noteq> path_join w dir f then None
           else nodes (sweep_file w dir now cutoff f) p)"
    by (simp only: sweep_loop.simps Cons.IH swept_after_file)
  also have "\<dots> = (if swept w dir now cutoff (f # fs) p then None else nodes w p)"
  proof (cases "swept w dir now cutoff fs p")
    case True
    then show ?thesis
      using swept_removable[OF True] by (auto simp add: sweep_file_nodes swept_Cons)
  next
    case False
    then show ?thesis by (simp add: sweep_file_nodes swept_Cons)
  qed
  finally show ?case .
qed

lemma sweep_loop_fields:
  "path_join (sweep_loop w dir now cutoff fs) = path_join w"
  "stat_fault (sweep_loop w dir now cutoff fs) = stat_fault w"
  "remove_fault (sweep_loop w dir now cutoff fs) = remove_fault w"
  by (induction fs arbitrary: w) (simp_all add: sweep_file_fields)

lemma swept_Date_now:
  "swept (snd (Date_now w)) dir now cutoff fs p = swept w dir now cutoff fs p"
  by (simp add: swept_def old_regular_file_def Date_now_fields)

text \<open>
  C9. One sweep never raises. When the directory cannot be listed, nothing changes.
  Otherwise, with the clock read once after the listing, a path is removed exactly when
  it is the path of a listed entry, a regular file whose age exceeds the cutoff is
  there, and neither \<open>stat\<close> nor \<open>remove\<close> fails on it; every other path, newer files
  and directories included, keeps what it had. So a failure on one entry leaves that
  entry alone and changes nothing for the others.
\<close>

theorem sweep_removes_old_files:
  "\<exists>w'. cleanupOldFiles w dir olderThanDays = Inr w' \<and>
     (case readdir_answer w dir of
        Inl e \<Rightarrow> w' = w
      | Inr files \<Rightarrow>
          (\<forall>p. nodes w' p =
                 (if swept w dir (int (clock w (ticks w)))
                       (olderThanDays * 24 * 60 * 60 * 1000) files p
                  then None else nodes w p)))"
proof (cases "readdir_answer w dir")
  case (Inl e)
  then show ?thesis by (simp add: cleanupOldFiles_def sweep_body_def)
next
  case (Inr files)
  have "cleanupOldFiles w dir olderThanDays =
          Inr (sweep_loop (snd (Date_now w)) dir (int (fst (Date_now w)))
                 (olderThanDays * 24 * 60 * 60 * 1000) files)"
    by (simp add: cleanupOldFiles_def sweep_body_def Inr Let_def split: prod.split)
  then show ?thesis
    by (simp add: Inr sweep_loop_nodes swept_Date_now Date_now_fields)
qed


lemma demo_sweep_facts:
  "readdir_answer demo_world ''uploads'' = Inr [''old.js'', ''hello.js'', ''sub'', ''locked.js'']"
  "readdir_answer demo_world ''nowhere'' = Inl (ENOENT ''scandir'' ''nowhere'')"
  "stat_fault demo_world ''uploads/old.js'' = None"
  "stat_fault demo_world ''uploads/locked.js'' = Some (EACCES ''stat'' ''uploads/locked.js'')"
  "remove_fault demo_world = (\<lambda>p. None)"
  "path_join demo_world = (\<lambda>d f. d @ ''/'' @ f)"
  "clock demo_world (ticks demo_world) = 1700000000000"
  by (simp_all add: demo_world_def)

lemma demo_swept:
  "swept demo_world ''uploads'' 1700000000000 604800000
     [''old.js'', ''hello.js'', ''sub'', ''locked.js''] ''uploads/old.js''"
  "\<not> swept demo_world ''uploads'' 1700000000000 604800000
     [''old.js'', ''hello.js'', ''sub'', ''locked.js''] ''uploads/hello.js''"
  "\<not> swept demo_world ''uploads'' 1700000000000 604800000
     [''old.js'', ''hello.js'', ''sub'', ''locked.js''] ''uploads/sub''"
  "\<not> swept demo_world ''uploads'' 1700000000000 604800000
     [''old.js'', ''hello.js'', ''sub'', ''locked.js''] ''uploads/locked.js''"
  by (simp_all add: swept_def old_regular_file_def demo_nodes demo_sweep_facts)

theorem sweep_removes_old_files_witness:
  "\<exists>w'. cleanupOldFiles demo_world ''uploads'' 7 = Inr w' \<and>
     nodes w' ''uploads/old.js'' = None \<and>
     nodes w' ''uploads/hello.js'' = Some (File 1699999999000 ''console.log(1)'') \<and>
     nodes w' ''uploads/sub'' = Some Dir \<and>
     nodes w' ''uploads/locked.js'' = Some (File 1600000000000 ''locked()'')"
proof -
  from sweep_removes_old_files[of demo_world "''uploads''" 7]
  obtain w' where c: "cleanupOldFiles demo_world ''uploads'' 7 = Inr w'"
    and n: "\<And>p. nodes w' p =
              (if swept demo_world ''uploads'' 1700000000000 604800000
                    [''old.js'', ''hello.js'', ''sub'', ''locked.js''] p
               then None else nodes demo_world p)"
    by (auto simp add: demo_sweep_facts)
  show ?thesis
    using c by (simp add: n demo_swept demo_nodes)
qed

lemma demo_sweep_directory_error:
  "cleanupOldFiles demo_world ''nowhere'' 7 = Inr demo_world"
  by (simp add: cleanupOldFiles_def sweep_body_def demo_sweep_facts)

end
